theory Spec2Isabelle
  imports Main
begin

section \<open>Strings\<close>

text \<open>
  A Python \<open>str\<close> is a sequence of Unicode code points, and the length limits of the
  validation schema count code points; a string is therefore a list of code points.
  \<open>cps\<close> turns a literal into such a list.
\<close>

type_synonym pystr = "nat list"

definition cps :: "string \<Rightarrow> pystr" where
  "cps s = map of_char s"

text \<open>
  \<open>str_strip_whitespace=True\<close> trims, at both ends, the code points with the Unicode
  property White_Space.
\<close>

definition is_whitespace :: "nat \<Rightarrow> bool" where
  "is_whitespace c =
     ((9 \<le> c \<and> c \<le> 13) \<or> c = 32 \<or> c = 133 \<or> c = 160 \<or> c = 5760 \<or>
      (8192 \<le> c \<and> c \<le> 8202) \<or> c = 8232 \<or> c = 8233 \<or> c = 8239 \<or> c = 8287 \<or>
      c = 12288)"

definition strip :: "pystr \<Rightarrow> pystr" where
  "strip s = rev (dropWhile is_whitespace (rev (dropWhile is_whitespace s)))"

text \<open>
  \<open>\d\<close> in the pattern of \<open>number\<close> is the class of decimal digits (general category
  Nd) of the Unicode tables of the regular expression engine. In every version of the
  tables the class holds the ten ASCII digits, holds no other ASCII character and holds
  no White_Space character; which digits of other scripts it holds depends on the
  version. That part of the table does not belong to this program and is a parameter
  \<open>nd\<close> of the model: \<open>nd c\<close> says that the code point \<open>c\<close> outside ASCII is a decimal
  digit for the engine.
\<close>

type_synonym digit_table = "nat \<Rightarrow> bool"

definition is_digit :: "digit_table \<Rightarrow> nat \<Rightarrow> bool" where
  "is_digit nd c = ((48 \<le> c \<and> c \<le> 57) \<or> (127 < c \<and> \<not> is_whitespace c \<and> nd c))"

text \<open>The pattern \<open>^\d{10}$\<close>: the whole string is ten decimal digits.\<close>

definition matches_pattern :: "digit_table \<Rightarrow> pystr \<Rightarrow> bool" where
  "matches_pattern nd s = (length s = 10 \<and> list_all (is_digit nd) s)"

text \<open>
  A table for examples, that of Unicode 14: the decimal digits come in blocks of ten
  consecutive code points, and \<open>nd_zeros\<close> lists the digit zero of each block.
\<close>

definition nd_zeros :: "nat list" where
  "nd_zeros =
     [48, 1632, 1776, 1984, 2406, 2534, 2662, 2790, 2918, 3046, 3174, 3302, 3430, 3558,
      3664, 3792, 3872, 4160, 4240, 6112, 6160, 6470, 6608, 6784, 6800, 6992, 7088, 7232,
      7248, 42528, 43216, 43264, 43472, 43504, 43600, 44016, 65296, 66720, 68912, 69734,
      69872, 69942, 70096, 70384, 70736, 70864, 71248, 71360, 71472, 71904, 72016, 72784,
      73040, 73120, 92768, 92864, 93008, 120782, 120792, 120802, 120812, 120822, 123200,
      123632, 125264, 130032]"

definition unicode_14 :: digit_table where
  "unicode_14 c = list_ex (\<lambda>z. z \<le> c \<and> c < z + 10) nd_zeros"

section \<open>The validation schema \<open>FormData\<close>\<close>

text \<open>
  A field of the JSON body is absent, present with a value that is not a string, or a
  string. The three fields of \<open>FormData\<close> are required strings.
\<close>

datatype field_value = Absent | NotAString | Str pystr

record json_body =
  json_name :: field_value
  json_email :: field_value
  json_number :: field_value

record FormData =
  name :: pystr
  email :: pystr
  number :: pystr

datatype error_type =
  missing | string_type | string_too_short | string_too_long | string_pattern_mismatch |
  value_error

datatype loc = loc_name | loc_email | loc_number

type_synonym validation_error = "loc \<times> error_type"

text \<open>\<open>name: str = Field(..., min_length=1, max_length=255)\<close>, stripped first.\<close>

definition validate_name :: "field_value \<Rightarrow> error_type + pystr" where
  "validate_name v =
     (case v of
        Absent \<Rightarrow> Inl missing
      | NotAString \<Rightarrow> Inl string_type
      | Str s \<Rightarrow>
          (let t = strip s in
           if length t < 1 then Inl string_too_short
           else if 255 < length t then Inl string_too_long
           else Inr t))"

text \<open>
  \<open>email: EmailStr\<close>: the stripped string goes to the email validator of the library,
  which rejects it or returns the address in normalised form. The validator is not part
  of this program and is a parameter \<open>ev\<close> of the model.
\<close>

type_synonym email_validator = "pystr \<Rightarrow> pystr option"

definition validate_email :: "email_validator \<Rightarrow> field_value \<Rightarrow> error_type + pystr" where
  "validate_email ev v =
     (case v of
        Absent \<Rightarrow> Inl missing
      | NotAString \<Rightarrow> Inl string_type
      | Str s \<Rightarrow> (case ev (strip s) of None \<Rightarrow> Inl value_error | Some e \<Rightarrow> Inr e))"

text \<open>\<open>number: str = Field(..., pattern=r"^\d{10}$")\<close>, stripped first.\<close>

definition validate_number :: "digit_table \<Rightarrow> field_value \<Rightarrow> error_type + pystr" where
  "validate_number nd v =
     (case v of
        Absent \<Rightarrow> Inl missing
      | NotAString \<Rightarrow> Inl string_type
      | Str s \<Rightarrow>
          (let t = strip s in
           if matches_pattern nd t then Inr t else Inl string_pattern_mismatch))"

definition field_errors :: "loc \<Rightarrow> error_type + pystr \<Rightarrow> validation_error list" where
  "field_errors l r = (case r of Inl e \<Rightarrow> [(l, e)] | Inr _ \<Rightarrow> [])"

text \<open>The schema validates every field and reports the errors of all of them.\<close>

definition validate_FormData ::
  "digit_table \<Rightarrow> email_validator \<Rightarrow> json_body \<Rightarrow> validation_error list + FormData" where
  "validate_FormData nd ev b =
     (let rn = validate_name (json_name b);
          re = validate_email ev (json_email b);
          rp = validate_number nd (json_number b)
      in case (rn, re, rp) of
           (Inr n, Inr e, Inr p) \<Rightarrow> Inr \<lparr>name = n, email = e, number = p\<rparr>
         | _ \<Rightarrow> Inl (field_errors loc_name rn @ field_errors loc_email re @
                     field_errors loc_number rp))"

text \<open>
  A validator for examples: it accepts, unchanged, every string with an \<open>@\<close> (code
  point 64) that has something on both sides of it.
\<close>

definition at_sign_validator :: email_validator where
  "at_sign_validator s =
     (if 64 \<in> set s \<and> s \<noteq> [] \<and> hd s \<noteq> 64 \<and> last s \<noteq> 64 then Some s else None)"

section \<open>Storage, session and log\<close>

text \<open>
  The mapped class \<open>Grandeur\<close>, table \<open>grandeur\<close>. \<open>id\<close> and \<open>created_at\<close> are not
  supplied by the handler: they are \<open>None\<close> until the row is inserted.
\<close>

record Grandeur =
  g_id :: "int option"
  g_name :: pystr
  g_email :: pystr
  phone_number :: pystr
  created_at :: "nat option"

text \<open>Exceptions raised by calls into the storage layer.\<close>

datatype exn = SQLAlchemyError string | OtherException string

datatype db_call = SessionLocal_call | add_call | commit_call | refresh_call | rollback_call | close_call

datatype level = INFO | ERROR

text \<open>A log record: level, the fixed text of the message, the interpolated value if any.\<close>

datatype log_arg = no_arg | arg_id "int option" | arg_exn exn

type_synonym log_record = "level \<times> string \<times> log_arg"

text \<open>
  The state a request runs in. \<open>grandeur\<close> holds the committed rows in insertion order,
  \<open>next_id\<close> is the identifier the storage assigns next, \<open>utcnow\<close> the clock read by the
  default of \<open>created_at\<close>. \<open>faults\<close> is the environment: the outcome of each coming call
  into the storage layer, \<open>Some e\<close> for a call that raises \<open>e\<close> (a list that has run out
  means no further failure). \<open>session\<close> holds the objects attached to the request's
  session, an object being referred to by its position; \<open>calls\<close> records the session
  calls made and \<open>log\<close> the records logged, oldest first.
\<close>

record state =
  grandeur :: "Grandeur list"
  next_id :: int
  utcnow :: nat
  faults :: "exn option list"
  session :: "Grandeur list"
  calls :: "db_call list"
  log :: "log_record list"

definition next_fault :: "state \<Rightarrow> exn option \<times> state" where
  "next_fault st =
     (case faults st of [] \<Rightarrow> (None, st) | f # fs \<Rightarrow> (f, st\<lparr>faults := fs\<rparr>))"

definition called :: "db_call \<Rightarrow> state \<Rightarrow> state" where
  "called c st = st\<lparr>calls := calls st @ [c]\<rparr>"

definition logger :: "level \<Rightarrow> string \<Rightarrow> log_arg \<Rightarrow> state \<Rightarrow> state" where
  "logger l m a st = st\<lparr>log := log st @ [(l, m, a)]\<rparr>"

text \<open>\<open>SessionLocal()\<close>: a new session with nothing attached. It opens no connection.\<close>

definition SessionLocal :: "state \<Rightarrow> state" where
  "SessionLocal st = (called SessionLocal_call st)\<lparr>session := []\<rparr>"

text \<open>\<open>Grandeur(name=..., email=..., phone_number=...)\<close>.\<close>

definition Grandeur_init :: "pystr \<Rightarrow> pystr \<Rightarrow> pystr \<Rightarrow> state \<Rightarrow> (exn + Grandeur) \<times> state" where
  "Grandeur_init n e p st =
     (case next_fault st of
        (Some x, s) \<Rightarrow> (Inl x, s)
      | (None, s) \<Rightarrow>
          (Inr \<lparr>g_id = None, g_name = n, g_email = e, phone_number = p, created_at = None\<rparr>, s))"

text \<open>\<open>db.add(obj)\<close> attaches the object; the reference to it is its position.\<close>

definition db_add :: "Grandeur \<Rightarrow> state \<Rightarrow> (exn + nat) \<times> state" where
  "db_add obj st =
     (case next_fault (called add_call st) of
        (Some x, s) \<Rightarrow> (Inl x, s)
      | (None, s) \<Rightarrow> (Inr (length (session s)), s\<lparr>session := session s @ [obj]\<rparr>))"

text \<open>
  The flush of a commit inserts every attached object that has no identifier yet: the
  storage gives it the next identifier, and \<open>created_at\<close> takes its default, the time of
  the clock, where none was supplied.
\<close>

definition inserted :: "int \<Rightarrow> nat \<Rightarrow> Grandeur \<Rightarrow> Grandeur" where
  "inserted i t g =
     g\<lparr>g_id := Some i,
       created_at := (case created_at g of None \<Rightarrow> Some t | Some c \<Rightarrow> Some c)\<rparr>"

fun flush :: "int \<Rightarrow> nat \<Rightarrow> Grandeur list \<Rightarrow> Grandeur list" where
  "flush i t [] = []"
| "flush i t (g # gs) =
     (case g_id g of
        None \<Rightarrow> inserted i t g # flush (i + 1) t gs
      | Some _ \<Rightarrow> g # flush i t gs)"

definition pending :: "Grandeur list \<Rightarrow> Grandeur list" where
  "pending gs = filter (\<lambda>g. g_id g = None) gs"

text \<open>
  \<open>db.commit()\<close>: flush and commit. When it raises, nothing of the transaction is stored.
\<close>

definition db_commit :: "state \<Rightarrow> (exn + unit) \<times> state" where
  "db_commit st =
     (case next_fault (called commit_call st) of
        (Some x, s) \<Rightarrow> (Inl x, s)
      | (None, s) \<Rightarrow>
          (Inr (),
           s\<lparr>grandeur := grandeur s @ flush (next_id s) (utcnow s) (pending (session s)),
             next_id := next_id s + int (length (pending (session s))),
             session := flush (next_id s) (utcnow s) (session s)\<rparr>))"

text \<open>
  \<open>db.refresh(obj)\<close> reloads the object from its row, found by primary key. It raises for
  an object that is not persistent or whose row is not there.
\<close>

definition db_refresh :: "nat \<Rightarrow> state \<Rightarrow> (exn + Grandeur) \<times> state" where
  "db_refresh h st =
     (case next_fault (called refresh_call st) of
        (Some x, s) \<Rightarrow> (Inl x, s)
      | (None, s) \<Rightarrow>
          (if h < length (session s) \<and> g_id (session s ! h) \<noteq> None then
             (case find (\<lambda>r. g_id r = g_id (session s ! h)) (grandeur s) of
                None \<Rightarrow> (Inl (SQLAlchemyError ''Could not refresh instance''), s)
              | Some r \<Rightarrow> (Inr r, s\<lparr>session := (session s)[h := r]\<rparr>))
           else (Inl (SQLAlchemyError ''Instance is not persistent within this Session''), s)))"

text \<open>\<open>db.rollback()\<close> drops what was attached and not committed; \<open>db.close()\<close> releases.\<close>

definition db_rollback :: "state \<Rightarrow> state" where
  "db_rollback st = (called rollback_call st)\<lparr>session := []\<rparr>"

definition db_close :: "state \<Rightarrow> state" where
  "db_close st = (called close_call st)\<lparr>session := []\<rparr>"

section \<open>The session provider \<open>get_db\<close>\<close>

text \<open>
  What can be raised while a route is served: the \<open>HTTPException\<close> of a handler, and the
  error the framework raises for a body that fails validation.
\<close>

datatype route_exception =
  HTTPException nat string | RequestValidationError "validation_error list"

text \<open>
  \<open>get_db\<close> is a generator: the part of the request that runs while it is suspended at
  \<open>yield\<close> is \<open>during\<close>, which returns or raises. When it returns, the session is
  committed. Whatever is raised, by \<open>during\<close> (it is thrown into the generator at the
  \<open>yield\<close>) or by this commit, is caught by the bare \<open>except\<close>, which rolls back and does
  not raise again; \<open>finally\<close> closes. So the generator always ends without raising: after
  \<open>Done r\<close> the suspended part had returned \<open>r\<close>, after \<open>Swallowed x\<close> it had raised \<open>x\<close>,
  which went no further than the \<open>except\<close>.
\<close>

datatype ('x, 'a) scope = Done 'a | Swallowed 'x

definition get_db :: "(state \<Rightarrow> ('x + 'a) \<times> state) \<Rightarrow> state \<Rightarrow> ('x, 'a) scope \<times> state" where
  "get_db during st =
     (case during (SessionLocal st) of
        (Inr r, s) \<Rightarrow>
          (case db_commit s of
             (Inr _, s') \<Rightarrow> (Done r, db_close s')
           | (Inl _, s') \<Rightarrow> (Done r, db_close (db_rollback s')))
      | (Inl x, s) \<Rightarrow> (Swallowed x, db_close (db_rollback s)))"

section \<open>The handlers\<close>

datatype json =
    greeting string
  | submitted string "int option"
  | health string
  | detail string
  | validation_detail "validation_error list"
  | plain string

record response =
  status_code :: nat
  content :: json

text \<open>\<open>root\<close>: a fixed greeting.\<close>

definition root :: json where
  "root = greeting ''Hello World!''"

text \<open>The \<open>try\<close> block of \<open>submit_form\<close>, up to the identifier read from the refreshed object.\<close>

definition submit_form_try :: "FormData \<Rightarrow> state \<Rightarrow> (exn + int option) \<times> state" where
  "submit_form_try data st =
     (case Grandeur_init (name data) (email data) (number data) st of
        (Inl x, s1) \<Rightarrow> (Inl x, s1)
      | (Inr form_entry, s1) \<Rightarrow>
     (case db_add form_entry s1 of
        (Inl x, s2) \<Rightarrow> (Inl x, s2)
      | (Inr h, s2) \<Rightarrow>
     (case db_commit s2 of
        (Inl x, s3) \<Rightarrow> (Inl x, s3)
      | (Inr _, s3) \<Rightarrow>
     (case db_refresh h s3 of
        (Inl x, s4) \<Rightarrow> (Inl x, s4)
      | (Inr form_entry', s4) \<Rightarrow>
          (Inr (g_id form_entry'),
           logger INFO ''Form submitted successfully. Record ID: '' (arg_id (g_id form_entry')) s4)))))"

definition submit_form :: "FormData \<Rightarrow> state \<Rightarrow> (route_exception + json) \<times> state" where
  "submit_form data st =
     (case submit_form_try data st of
        (Inr i, s) \<Rightarrow> (Inr (submitted ''Form submitted successfully!'' i), s)
      | (Inl (SQLAlchemyError m), s) \<Rightarrow>
          (Inl (HTTPException 500 ''Database error occurred while submitting the form''),
           logger ERROR ''Database error: '' (arg_exn (SQLAlchemyError m)) s)
      | (Inl (OtherException m), s) \<Rightarrow>
          (Inl (HTTPException 500 ''An unexpected error occurred while processing your request''),
           logger ERROR ''Unexpected error: '' (arg_exn (OtherException m)) s))"

text \<open>
  \<open>health_check\<close>: the \<open>try\<close> block returns a constant; \<open>health_check_except\<close> is the
  handler's \<open>try\<close>/\<open>except\<close> around the outcome of that block.
\<close>

definition health_check_try :: "state \<Rightarrow> (exn + json) \<times> state" where
  "health_check_try st = (Inr (health ''healthy''), st)"

definition health_check_except :: "(exn + json) \<times> state \<Rightarrow> (route_exception + json) \<times> state" where
  "health_check_except t =
     (case t of
        (Inr r, s) \<Rightarrow> (Inr r, s)
      | (Inl x, s) \<Rightarrow>
          (Inl (HTTPException 503 ''Service unavailable''),
           logger ERROR ''Health check failed: '' (arg_exn x) s))"

definition health_check :: "state \<Rightarrow> (route_exception + json) \<times> state" where
  "health_check st = health_check_except (health_check_try st)"

section \<open>The routes\<close>

text \<open>
  How a route is served is the framework's part. The source does not say which version
  of the framework serves it, and two things that matter here differ between versions;
  they are the parameter \<open>fw\<close> of the model.
  \<^item> \<open>reraises\<close>: when the handler raised and the session provider caught the exception
    and ended without raising, the route raises the handler's exception again, which is
    then answered by its exception handler (FastAPI before 0.110). Otherwise the route is
    left without a response and the server answers a plain 500.
  \<^item> \<open>validates_inside\<close>: the error for a body that fails validation is raised while the
    session provider is suspended, and is thrown into it like an exception of the
    handler (FastAPI from 0.118). Otherwise the provider ends as after a return, and the
    validation error is answered afterwards.
  In every version the session provider is entered before the body is validated, and
  the handler is not called for a body that fails validation.
\<close>

record framework =
  reraises :: bool
  validates_inside :: bool

text \<open>The answer of the exception handlers: the status and detail of an \<open>HTTPException\<close>,
  422 with the field errors for a validation error.\<close>

definition exception_response :: "route_exception \<Rightarrow> response" where
  "exception_response x =
     (case x of
        HTTPException c d \<Rightarrow> \<lparr>status_code = c, content = detail d\<rparr>
      | RequestValidationError errs \<Rightarrow> \<lparr>status_code = 422, content = validation_detail errs\<rparr>)"

text \<open>
  The answer of a route whose session provider has ended: the status of the decorator
  with what the handler returned; for an exception that the provider swallowed, the
  answer of its exception handler where the framework raises it again, and the plain
  500 of the server where it does not.
\<close>

definition respond :: "framework \<Rightarrow> nat \<Rightarrow> (route_exception, json) scope \<Rightarrow> response" where
  "respond fw ok r =
     (case r of
        Done payload \<Rightarrow> \<lparr>status_code = ok, content = payload\<rparr>
      | Swallowed x \<Rightarrow>
          (if reraises fw then exception_response x
           else \<lparr>status_code = 500, content = plain ''Internal Server Error''\<rparr>))"

definition get_root :: "state \<Rightarrow> response \<times> state" where
  "get_root st = (\<lparr>status_code = 200, content = root\<rparr>, st)"

definition post_submit_form ::
  "framework \<Rightarrow> digit_table \<Rightarrow> email_validator \<Rightarrow> json_body \<Rightarrow> state \<Rightarrow> response \<times> state" where
  "post_submit_form fw nd ev b st =
     (case validate_FormData nd ev b of
        Inl errs \<Rightarrow>
          (if validates_inside fw then
             (case get_db (\<lambda>s. (Inl (RequestValidationError errs), s)) st of
                (r, s) \<Rightarrow> (respond fw 201 r, s))
           else
             (case get_db (\<lambda>s. (Inr () :: route_exception + unit, s)) st of
                (r, s) \<Rightarrow> (exception_response (RequestValidationError errs), s)))
      | Inr data \<Rightarrow>
          (case get_db (submit_form data) st of (r, s) \<Rightarrow> (respond fw 201 r, s)))"

definition get_health :: "framework \<Rightarrow> state \<Rightarrow> response \<times> state" where
  "get_health fw st = (case get_db health_check st of (r, s) \<Rightarrow> (respond fw 200 r, s))"

datatype request = GET_root | POST_submit_form json_body | GET_health

fun handle ::
  "framework \<Rightarrow> digit_table \<Rightarrow> email_validator \<Rightarrow> request \<Rightarrow> state \<Rightarrow> response \<times> state" where
  "handle fw nd ev GET_root st = get_root st"
| "handle fw nd ev (POST_submit_form b) st = post_submit_form fw nd ev b st"
| "handle fw nd ev GET_health st = get_health fw st"

text \<open>Requests served one after the other, each in the state the previous one left.\<close>

fun serve ::
  "framework \<Rightarrow> digit_table \<Rightarrow> email_validator \<Rightarrow> request list \<Rightarrow> state \<Rightarrow> response list \<times> state" where
  "serve fw nd ev [] st = ([], st)"
| "serve fw nd ev (q # qs) st =
     (case handle fw nd ev q st of
        (r, s) \<Rightarrow> (case serve fw nd ev qs s of (rs, s') \<Rightarrow> (r # rs, s')))"

text \<open>The identifiers returned by successful submissions.\<close>

fun record_ids :: "response list \<Rightarrow> int list" where
  "record_ids [] = []"
| "record_ids (r # rs) =
     (case content r of
        submitted _ (Some i) \<Rightarrow> (if status_code r = 201 then i # record_ids rs else record_ids rs)
      | _ \<Rightarrow> record_ids rs)"

text \<open>An empty store, nothing logged, no failure ahead.\<close>

definition empty_state :: state where
  "empty_state =
     \<lparr>grandeur = [], next_id = 1, utcnow = 0, faults = [], session = [], calls = [], log = []\<rparr>"

text \<open>The three kinds of framework.\<close>

definition reraising :: framework where
  "reraising = \<lparr>reraises = True, validates_inside = False\<rparr>"

definition swallowing :: framework where
  "swallowing = \<lparr>reraises = False, validates_inside = False\<rparr>"

definition enclosing :: framework where
  "enclosing = \<lparr>reraises = False, validates_inside = True\<rparr>"

definition ada :: json_body where
  "ada = \<lparr>json_name = Str (cps ''Ada Lovelace''), json_email = Str (cps ''ada@example.com''),
          json_number = Str (cps ''5551234567'')\<rparr>"

section \<open>Module initialisation\<close>

text \<open>
  What the module finds when it is imported: the variables of the process, the contents
  of the \<open>.env\<close> file, and whether \<open>create_engine\<close> and \<open>create_all\<close> raise.
\<close>

record process =
  environ :: "string \<rightharpoonup> string"
  dotenv :: "string \<rightharpoonup> string"
  create_engine_raises :: "exn option"
  create_all_raises :: "exn option"

text \<open>\<open>load_dotenv()\<close> adds the variables of the file that the process does not have.\<close>

definition load_dotenv :: "process \<Rightarrow> (string \<rightharpoonup> string)" where
  "load_dotenv p = dotenv p ++ environ p"

definition getenv :: "(string \<rightharpoonup> string) \<Rightarrow> string \<Rightarrow> string option" where
  "getenv env k = env k"

text \<open>\<open>not v\<close> for an optional string: \<open>None\<close> and the empty string are false.\<close>

definition py_not :: "string option \<Rightarrow> bool" where
  "py_not v = (case v of None \<Rightarrow> True | Some s \<Rightarrow> s = [])"

datatype init_step =
  basicConfig | load_dotenv_step | getenv_step | create_engine_step | FastAPI_step |
  add_middleware_step | create_all_step

datatype init_error = ValueError string | Reraised exn

record app =
  title :: string
  description :: string
  version :: string
  allow_origins :: "string list"
  allow_credentials :: bool
  allow_methods :: "string list"
  allow_headers :: "string list"

definition the_app :: app where
  "the_app =
     \<lparr>title = ''Form Submission API'', description = ''API for handling form submissions'',
      version = ''1.0.0'', allow_origins = [''*''], allow_credentials = True,
      allow_methods = [''*''], allow_headers = [''*'']\<rparr>"

text \<open>
  The statements of the module in order: the result is the app or the exception that
  ended the import, with the steps reached and the records logged.
\<close>

definition module_init :: "process \<Rightarrow> (init_error + app) \<times> init_step list \<times> log_record list" where
  "module_init p =
     (let DATABASE_URL = getenv (load_dotenv p) ''DATABASE_URL'' in
      if py_not DATABASE_URL then
        (Inl (ValueError ''DATABASE_URL environment variable is missing''),
         [basicConfig, load_dotenv_step, getenv_step], [])
      else
        (case create_engine_raises p of
           Some e \<Rightarrow>
             (Inl (Reraised e),
              [basicConfig, load_dotenv_step, getenv_step, create_engine_step],
              [(ERROR, ''Failed to establish database connection: '', arg_exn e)])
         | None \<Rightarrow>
             (case create_all_raises p of
                Some e \<Rightarrow>
                  (Inl (Reraised e),
                   [basicConfig, load_dotenv_step, getenv_step, create_engine_step,
                    FastAPI_step, add_middleware_step, create_all_step],
                   [(INFO, ''Database connection established successfully'', no_arg),
                    (ERROR, ''Failed to create database tables: '', arg_exn e)])
              | None \<Rightarrow>
                  (Inr the_app,
                   [basicConfig, load_dotenv_step, getenv_step, create_engine_step,
                    FastAPI_step, add_middleware_step, create_all_step],
                   [(INFO, ''Database connection established successfully'', no_arg),
                    (INFO, ''Database tables created successfully'', no_arg)]))))"

text \<open>
  The server imports the module to obtain the app and binds its port afterwards: an
  import that raises leaves no app to serve.
\<close>

definition binds_port :: "(init_error + app) \<times> init_step list \<times> log_record list \<Rightarrow> bool" where
  "binds_port r = (case fst r of Inr _ \<Rightarrow> True | Inl _ \<Rightarrow> False)"

section \<open>Notions used in the statements\<close>

text \<open>The outcome of the next call into the storage layer.\<close>

definition head_fault :: "exn option list \<Rightarrow> exn option" where
  "head_fault fs = (case fs of [] \<Rightarrow> None | f # _ \<Rightarrow> f)"

text \<open>The first exception among the outcomes of the next \<open>n\<close> calls, if there is one.\<close>

fun first_fault :: "nat \<Rightarrow> exn option list \<Rightarrow> exn option" where
  "first_fault 0 fs = None"
| "first_fault (Suc n) [] = None"
| "first_fault (Suc n) (None # fs) = first_fault n fs"
| "first_fault (Suc n) (Some x # fs) = Some x"

text \<open>The row a submission of \<open>data\<close> inserts in state \<open>st\<close>.\<close>

definition new_row :: "FormData \<Rightarrow> state \<Rightarrow> Grandeur" where
  "new_row data st =
     \<lparr>g_id = Some (next_id st), g_name = name data, g_email = email data,
      phone_number = number data, created_at = Some (utcnow st)\<rparr>"

text \<open>The session calls made between an earlier state and a later one.\<close>

definition this_request :: "state \<Rightarrow> state \<Rightarrow> db_call list" where
  "this_request st s = drop (length (calls st)) (calls s)"

text \<open>What \<open>submit_form\<close> raises, and what it logs, for an exception of its \<open>try\<close> block.\<close>

definition raised :: "exn \<Rightarrow> route_exception" where
  "raised x =
     (case x of
        SQLAlchemyError _ \<Rightarrow> HTTPException 500 ''Database error occurred while submitting the form''
      | OtherException _ \<Rightarrow>
          HTTPException 500 ''An unexpected error occurred while processing your request'')"

definition error_record :: "exn \<Rightarrow> log_record" where
  "error_record x =
     (case x of
        SQLAlchemyError _ \<Rightarrow> (ERROR, ''Database error: '', arg_exn x)
      | OtherException _ \<Rightarrow> (ERROR, ''Unexpected error: '', arg_exn x))"

text \<open>The same submission with spaces around the number.\<close>

definition ada_padded :: json_body where
  "ada_padded = ada\<lparr>json_number := Str (cps '' 5551234567 '')\<rparr>"

text \<open>
  A well-formed row: a name of 1 to 255 code points and a \<open>phone_number\<close> of ten decimal
  digits, those of the table the pattern is matched with. (\<open>g_email\<close> is a string, never
  \<open>None\<close>.)
\<close>

definition row_ok :: "digit_table \<Rightarrow> Grandeur \<Rightarrow> bool" where
  "row_ok nd g =
     (g_name g \<noteq> [] \<and> length (g_name g) \<le> 255 \<and> matches_pattern nd (phone_number g))"

text \<open>
  A later table: that of Unicode 14 with the ten Kawi digits, U+11F50 to U+11F59, which
  Unicode 15 added; and a submission whose number is written in them.
\<close>

definition unicode_14_and_kawi :: digit_table where
  "unicode_14_and_kawi c = (unicode_14 c \<or> (73552 \<le> c \<and> c \<le> 73561))"

definition ada_kawi :: json_body where
  "ada_kawi =
     ada\<lparr>json_number := Str [73557, 73557, 73557, 73553, 73554, 73555, 73556, 73557, 73558, 73559]\<rparr>"

section \<open>Properties\<close>

subsection \<open>Failures ahead\<close>

lemma next_fault_eq: "next_fault st = (head_fault (faults st), st\<lparr>faults := tl (faults st)\<rparr>)"
  by (cases "faults st") (simp_all add: next_fault_def head_fault_def)

lemma first_fault_Nil: "first_fault n [] = None"
  by (cases n) simp_all

lemma first_fault_Suc:
  "first_fault (Suc n) fs = (case head_fault fs of Some x \<Rightarrow> Some x | None \<Rightarrow> first_fault n (tl fs))"
proof (cases fs)
  case Nil
  then show ?thesis by (simp add: head_fault_def first_fault_Nil)
next
  case (Cons f gs)
  then show ?thesis by (cases f) (simp_all add: head_fault_def)
qed

lemma first_fault_None: "first_fault n fs = None \<longleftrightarrow> list_all (\<lambda>f. f = None) (take n fs)"
  by (induction n fs rule: first_fault.induct) simp_all

lemma first_fault_replicate:
  "k < n \<Longrightarrow> first_fault n (replicate k None @ Some x # rest) = Some x"
proof (induction k arbitrary: n)
  case 0
  then show ?case by (cases n) simp_all
next
  case (Suc k)
  then show ?case by (cases n) simp_all
qed

lemma find_snoc: "P x \<Longrightarrow> \<exists>r. find P (xs @ [x]) = Some r \<and> P r"
  by (induction xs) auto

lemmas op_defs = Grandeur_init_def db_add_def db_commit_def db_refresh_def db_rollback_def
  db_close_def SessionLocal_def called_def logger_def next_fault_eq pending_def inserted_def

lemma four: "(4::nat) = Suc (Suc (Suc (Suc 0)))"
  by simp

subsection \<open>The handler and the provider\<close>

text \<open>The try block, started on a fresh session.\<close>

lemma try_cases:
  assumes s0: "session s0 = []"
  shows "case submit_form_try data s0 of (r, s) \<Rightarrow>
     (case first_fault 4 (faults s0) of
        None \<Rightarrow> r = Inr (Some (next_id s0)) \<and> grandeur s = grandeur s0 @ [new_row data s0]
                 \<and> next_id s = next_id s0 + 1 \<and> pending (session s) = []
                 \<and> log s = log s0 @ [(INFO, ''Form submitted successfully. Record ID: '', arg_id (Some (next_id s0)))]
      | Some x \<Rightarrow> r = Inl x \<and> log s = log s0 \<and>
           (grandeur s = grandeur s0 \<and> next_id s = next_id s0 \<or>
            grandeur s = grandeur s0 @ [new_row data s0] \<and> next_id s = next_id s0 + 1))"
proof -
  let ?row = "new_row data s0"
  obtain r where r: "find (\<lambda>r. g_id r = Some (next_id s0)) (grandeur s0 @ [?row]) = Some r"
    "g_id r = Some (next_id s0)"
    using find_snoc[of "\<lambda>r. g_id r = Some (next_id s0)" ?row "grandeur s0"]
    by (auto simp: new_row_def)
  show ?thesis
    using s0 r unfolding four
    by (simp add: submit_form_try_def op_defs first_fault_Suc new_row_def split: option.splits)
qed

lemma submit_form_eq:
  "submit_form data st =
     (case submit_form_try data st of
        (Inr i, s) \<Rightarrow> (Inr (submitted ''Form submitted successfully!'' i), s)
      | (Inl x, s) \<Rightarrow> (Inl (raised x), s\<lparr>log := log s @ [error_record x]\<rparr>))"
  by (simp add: submit_form_def raised_def error_record_def logger_def split: prod.splits sum.splits exn.splits)

text \<open>
  The provider: after a body that raises it calls rollback and close; after a body that
  returns it calls commit, rollback if the commit raised, and close.
\<close>

lemma get_db_raise:
  assumes "during (SessionLocal st) = (Inl x, s)"
  shows "get_db during st = (Swallowed x, db_close (db_rollback s))"
  using assms by (simp add: get_db_def)

lemma get_db_return:
  assumes "during (SessionLocal st) = (Inr r, s)" "pending (session s) = []"
  shows "\<exists>s'. get_db during st = (Done r, s') \<and> grandeur s' = grandeur s \<and> next_id s' = next_id s
     \<and> log s' = log s \<and> session s' = []
     \<and> (calls s' = calls s @ [commit_call, close_call] \<or>
        calls s' = calls s @ [commit_call, rollback_call, close_call])"
  using assms by (simp add: get_db_def op_defs split: option.splits)

lemma get_db_calls:
  "case during (SessionLocal st) of
     (Inr r, s) \<Rightarrow> this_request s (snd (get_db during st)) = [commit_call, close_call] \<or>
                    this_request s (snd (get_db during st)) = [commit_call, rollback_call, close_call]
   | (Inl x, s) \<Rightarrow> this_request s (snd (get_db during st)) = [rollback_call, close_call]"
  by (simp add: get_db_def op_defs this_request_def split: option.splits sum.splits prod.splits)

text \<open>The provider never lets an exception through.\<close>

lemma get_db_swallows:
  "fst (during (SessionLocal st)) = Inl x \<Longrightarrow> fst (get_db during st) = Swallowed x"
  by (cases "during (SessionLocal st)") (simp add: get_db_def)

subsection \<open>The routes\<close>

lemma SessionLocal_fields:
  "grandeur (SessionLocal st) = grandeur st" "next_id (SessionLocal st) = next_id st"
  "faults (SessionLocal st) = faults st" "session (SessionLocal st) = []"
  "log (SessionLocal st) = log st" "utcnow (SessionLocal st) = utcnow st"
  "calls (SessionLocal st) = calls st @ [SessionLocal_call]"
  by (simp_all add: SessionLocal_def called_def)

lemma new_row_SessionLocal: "new_row data (SessionLocal st) = new_row data st"
  by (simp add: new_row_def SessionLocal_fields)

lemma close_rollback_fields:
  "grandeur (db_close (db_rollback s)) = grandeur s" "next_id (db_close (db_rollback s)) = next_id s"
  "log (db_close (db_rollback s)) = log s" "session (db_close (db_rollback s)) = []"
  "calls (db_close (db_rollback s)) = calls s @ [rollback_call, close_call]"
  by (simp_all add: db_close_def db_rollback_def called_def)

lemma post_valid:
  assumes v: "validate_FormData nd ev b = Inr data"
  shows "case post_submit_form fw nd ev b st of (r, s) \<Rightarrow>
     (case first_fault 4 (faults st) of
        None \<Rightarrow>
          r = \<lparr>status_code = 201, content = submitted ''Form submitted successfully!'' (Some (next_id st))\<rparr>
          \<and> grandeur s = grandeur st @ [new_row data st] \<and> next_id s = next_id st + 1
      | Some x \<Rightarrow>
          r = respond fw 201 (Swallowed (raised x)) \<and> log s = log st @ [error_record x] \<and> session s = []
          \<and> (\<exists>cs. calls s = cs @ [rollback_call, close_call])
          \<and> (grandeur s = grandeur st \<and> next_id s = next_id st \<or>
             grandeur s = grandeur st @ [new_row data st] \<and> next_id s = next_id st + 1))"
proof -
  obtain r0 s1 where t: "submit_form_try data (SessionLocal st) = (r0, s1)"
    by (cases "submit_form_try data (SessionLocal st)")
  note c = try_cases[of "SessionLocal st" data, unfolded t, simplified SessionLocal_fields new_row_SessionLocal, simplified]
  show ?thesis
  proof (cases "first_fault 4 (faults st)")
    case None
    with c have r0: "r0 = Inr (Some (next_id st))"
      and g: "grandeur s1 = grandeur st @ [new_row data st]" "next_id s1 = next_id st + 1"
      and p: "pending (session s1) = []" by simp_all
    have "submit_form data (SessionLocal st) =
        (Inr (submitted ''Form submitted successfully!'' (Some (next_id st))), s1)"
      by (simp add: submit_form_eq t r0)
    from get_db_return[of "submit_form data", OF this p] g None v show ?thesis
      by (auto simp: post_submit_form_def respond_def)
  next
    case (Some x)
    with c have r0: "r0 = Inl x" and l: "log s1 = log st"
      and g: "grandeur s1 = grandeur st \<and> next_id s1 = next_id st \<or>
              grandeur s1 = grandeur st @ [new_row data st] \<and> next_id s1 = next_id st + 1"
      by simp_all
    have "submit_form data (SessionLocal st) = (Inl (raised x), s1\<lparr>log := log s1 @ [error_record x]\<rparr>)"
      by (simp add: submit_form_eq t r0)
    from get_db_raise[of "submit_form data", OF this] g l Some v show ?thesis
      by (auto simp: post_submit_form_def close_rollback_fields)
  qed
qed

text \<open>
  A body that fails validation: the table, the identifiers and the log are as before, and
  the session has seen the calls of the provider only.
\<close>

lemma post_invalid:
  assumes v: "validate_FormData nd ev b = Inl errs"
  shows "\<exists>r s. post_submit_form fw nd ev b st = (r, s)
     \<and> grandeur s = grandeur st \<and> next_id s = next_id st \<and> log s = log st
     \<and> (if validates_inside fw
         then r = respond fw 201 (Swallowed (RequestValidationError errs)) \<and>
              this_request st s = [SessionLocal_call, rollback_call, close_call]
         else r = \<lparr>status_code = 422, content = validation_detail errs\<rparr> \<and>
              (this_request st s = [SessionLocal_call, commit_call, close_call] \<or>
               this_request st s = [SessionLocal_call, commit_call, rollback_call, close_call]))"
proof (cases "validates_inside fw")
  case True
  let ?during = "\<lambda>s. (Inl (RequestValidationError errs) :: route_exception + json, s :: state)"
  have "?during (SessionLocal st) = (Inl (RequestValidationError errs), SessionLocal st)" by simp
  from get_db_raise[of ?during, OF this] v True show ?thesis
    by (simp add: post_submit_form_def close_rollback_fields SessionLocal_fields this_request_def)
next
  case False
  let ?during = "\<lambda>s. (Inr () :: route_exception + unit, s :: state)"
  have "?during (SessionLocal st) = (Inr (), SessionLocal st)" by simp
  from get_db_return[of ?during, OF this] v False show ?thesis
    by (auto simp: post_submit_form_def exception_response_def SessionLocal_fields pending_def
        this_request_def)
qed

lemma respond_not_201:
  "status_code (respond fw ok (Swallowed (raised x))) = 500"
  "status_code (respond fw ok (Swallowed (RequestValidationError errs))) \<noteq> 201"
  by (simp_all add: respond_def exception_response_def raised_def split: exn.splits)

lemma health_ok:
  "\<exists>s. get_health fw st = (\<lparr>status_code = 200, content = health ''healthy''\<rparr>, s)
     \<and> grandeur s = grandeur st \<and> next_id s = next_id st \<and> log s = log st"
proof -
  have "health_check (SessionLocal st) = (Inr (health ''healthy''), SessionLocal st)"
    by (simp add: health_check_def health_check_try_def health_check_except_def)
  from get_db_return[of health_check, OF this] show ?thesis
    by (auto simp: get_health_def respond_def SessionLocal_fields pending_def)
qed

text \<open>What one request does to the table and to the identifier sequence.\<close>

lemma handle_effect:
  "case handle fw nd ev q st of (r, s) \<Rightarrow>
     (grandeur s = grandeur st \<and> next_id s = next_id st \<and> status_code r \<noteq> 201) \<or>
     (\<exists>b data. q = POST_submit_form b \<and> validate_FormData nd ev b = Inr data \<and>
        grandeur s = grandeur st @ [new_row data st] \<and> next_id s = next_id st + 1 \<and>
        (status_code r = 201 \<longrightarrow> content r = submitted ''Form submitted successfully!'' (Some (next_id st))) \<and>
        (status_code r \<noteq> 201 \<longrightarrow> status_code r = 500))"
proof (cases q)
  case GET_root
  then show ?thesis by (simp add: get_root_def root_def)
next
  case GET_health
  with health_ok[where fw=fw and st=st] show ?thesis by auto
next
  case (POST_submit_form b)
  show ?thesis
  proof (cases "validate_FormData nd ev b")
    case (Inl errs)
    with post_invalid[OF Inl, where fw=fw and st=st] POST_submit_form show ?thesis
      by (auto simp: respond_not_201 split: if_splits)
  next
    case (Inr data)
    from post_valid[OF Inr, where fw=fw and st=st] POST_submit_form Inr show ?thesis
      by (cases "first_fault 4 (faults st)"; cases "post_submit_form fw nd ev b st")
         (auto simp: respond_not_201)
  qed
qed

subsection \<open>Strings and validation\<close>

lemmas validate_defs = validate_FormData_def validate_name_def validate_email_def
  validate_number_def field_errors_def

lemmas string_defs = cps_def strip_def is_whitespace_def matches_pattern_def is_digit_def
  at_sign_validator_def

lemma validate_ada:
  "validate_FormData nd at_sign_validator ada =
     Inr \<lparr>name = cps ''Ada Lovelace'', email = cps ''ada@example.com'', number = cps ''5551234567''\<rparr>"
  by (simp add: ada_def validate_defs string_defs)

lemma validate_ada_padded:
  "validate_FormData nd at_sign_validator ada_padded =
     Inr \<lparr>name = cps ''Ada Lovelace'', email = cps ''ada@example.com'', number = cps ''5551234567''\<rparr>"
  by (simp add: ada_padded_def ada_def validate_defs string_defs)

lemma is_digit_not_whitespace: "is_digit nd c \<Longrightarrow> \<not> is_whitespace c"
  by (auto simp: is_digit_def is_whitespace_def)

lemma strip_all_whitespace: "list_all is_whitespace s \<Longrightarrow> strip s = []"
proof -
  assume "list_all is_whitespace s"
  then have d: "dropWhile is_whitespace s = []" by (induction s) simp_all
  show ?thesis unfolding strip_def d by simp
qed

lemma strip_unchanged:
  assumes "s \<noteq> []" "\<not> is_whitespace (hd s)" "\<not> is_whitespace (last s)"
  shows "strip s = s"
proof -
  have a: "dropWhile is_whitespace s = s"
    using assms(1,2) by (cases s) simp_all
  have b: "dropWhile is_whitespace (rev s) = rev s"
    using assms(1,3) by (cases "rev s") (simp_all add: last_rev[symmetric] hd_rev)
  show ?thesis by (simp add: strip_def a b)
qed

lemma strip_matches: "matches_pattern nd p \<Longrightarrow> strip p = p"
proof -
  assume m: "matches_pattern nd p"
  then have ne: "p \<noteq> []" by (auto simp: matches_pattern_def)
  from m have "\<forall>c\<in>set p. is_digit nd c" by (simp add: matches_pattern_def list_all_iff)
  with ne have "is_digit nd (hd p)" "is_digit nd (last p)" by simp_all
  then show ?thesis using ne is_digit_not_whitespace[of nd] by (simp add: strip_unchanged)
qed

lemma validate_Inr:
  "validate_FormData nd ev b = Inr d \<longleftrightarrow>
     (\<exists>n e p. json_name b = Str n \<and> json_email b = Str e \<and> json_number b = Str p \<and>
        1 \<le> length (strip n) \<and> length (strip n) \<le> 255 \<and> matches_pattern nd (strip p) \<and>
        ev (strip e) = Some (email d) \<and> name d = strip n \<and> number d = strip p)"
  by (cases d) (auto simp: validate_defs Let_def Suc_le_eq split: field_value.splits option.splits sum.splits if_splits)

lemma validate_Inl_name:
  "validate_name (json_name b) = Inl e \<Longrightarrow>
     \<exists>errs. validate_FormData nd ev b = Inl errs \<and> (loc_name, e) \<in> set errs"
  by (simp add: validate_FormData_def field_errors_def Let_def split: sum.splits)

lemma validate_Inl_number:
  "validate_number nd (json_number b) = Inl e \<Longrightarrow>
     \<exists>errs. validate_FormData nd ev b = Inl errs \<and> (loc_number, e) \<in> set errs"
  by (simp add: validate_FormData_def field_errors_def Let_def split: sum.splits)

subsection \<open>Runs\<close>

text \<open>
  The identifiers a run returns lie between the next identifier at its start and the
  next identifier at its end.
\<close>

lemma serve_ids:
  "next_id st \<le> next_id (snd (serve fw nd ev qs st)) \<and>
   (\<forall>i\<in>set (record_ids (fst (serve fw nd ev qs st))). next_id st \<le> i \<and> i < next_id (snd (serve fw nd ev qs st)))"
proof (induction qs arbitrary: st)
  case Nil
  then show ?case by simp
next
  case (Cons q qs)
  obtain r s where h: "handle fw nd ev q st = (r, s)" by (cases "handle fw nd ev q st")
  obtain rs s' where sv: "serve fw nd ev qs s = (rs, s')" by (cases "serve fw nd ev qs s")
  from Cons.IH[of s] sv have ih: "next_id s \<le> next_id s'"
    "\<forall>i\<in>set (record_ids rs). next_id s \<le> i \<and> i < next_id s'" by simp_all
  from handle_effect[where fw=fw and nd=nd and ev=ev and q=q and st=st] h have step: "next_id st \<le> next_id s"
    "\<And>m i. status_code r = 201 \<Longrightarrow> content r = submitted m (Some i) \<Longrightarrow> i = next_id st \<and> next_id s = next_id st + 1"
    by auto
  have "\<forall>i\<in>set (record_ids (r # rs)). next_id st \<le> i \<and> i < next_id s'"
    using ih step by (auto split: json.splits option.splits if_splits)
  with ih step(1) show ?case by (simp add: h sv)
qed

lemma first_fault_empty_state: "first_fault 4 (faults empty_state) = None"
  by (simp add: empty_state_def first_fault_Nil)

lemmas route_defs = post_submit_form_def get_db_def submit_form_def submit_form_try_def
  get_health_def health_check_def health_check_try_def health_check_except_def respond_def
  exception_response_def get_root_def root_def

lemmas framework_defs = reraising_def swallowing_def enclosing_def

lemma post_short_number:
  "post_submit_form fw nd at_sign_validator (ada\<lparr>json_number := Str (cps ''12345'')\<rparr>) empty_state =
     (if validates_inside fw
      then (respond fw 201 (Swallowed (RequestValidationError [(loc_number, string_pattern_mismatch)])),
            empty_state\<lparr>calls := [SessionLocal_call, rollback_call, close_call]\<rparr>)
      else (\<lparr>status_code = 422, content = validation_detail [(loc_number, string_pattern_mismatch)]\<rparr>,
            empty_state\<lparr>calls := [SessionLocal_call, commit_call, close_call]\<rparr>))"
  by (simp add: ada_def validate_defs string_defs route_defs op_defs head_fault_def empty_state_def)

text \<open>The rule for \<open>name\<close>, and what becomes of a submission that breaks it.\<close>

lemma validate_name_Inr_iff:
  "validate_name v = Inr t \<longleftrightarrow>
     (\<exists>n. v = Str n \<and> t = strip n \<and> 1 \<le> length (strip n) \<and> length (strip n) \<le> 255)"
  by (auto simp: validate_name_def Let_def Suc_le_eq split: field_value.splits if_splits)

lemma accepted_name:
  "status_code (fst (post_submit_form fw nd ev b st)) = 201 \<Longrightarrow>
     \<exists>n. json_name b = Str n \<and> 1 \<le> length (strip n) \<and> length (strip n) \<le> 255"
proof (cases "validate_FormData nd ev b")
  case (Inl errs)
  assume "status_code (fst (post_submit_form fw nd ev b st)) = 201"
  with post_invalid[OF Inl, where fw=fw and st=st] show ?thesis
    by (auto simp: respond_not_201 split: if_splits)
next
  case (Inr d)
  then show ?thesis by (auto simp: validate_Inr)
qed

lemma name_rejected:
  assumes "json_name b = Str w" "list_all is_whitespace w"
  shows "\<exists>errs. validate_FormData nd ev b = Inl errs \<and> (loc_name, string_too_short) \<in> set errs \<and>
           grandeur (snd (post_submit_form fw nd ev b st)) = grandeur st \<and>
           (\<not> validates_inside fw \<longrightarrow>
              fst (post_submit_form fw nd ev b st) = \<lparr>status_code = 422, content = validation_detail errs\<rparr>) \<and>
           (validates_inside fw \<and> \<not> reraises fw \<longrightarrow>
              fst (post_submit_form fw nd ev b st) =
                \<lparr>status_code = 500, content = plain ''Internal Server Error''\<rparr>)"
proof -
  from assms have "validate_name (json_name b) = Inl string_too_short"
    by (simp add: validate_name_def strip_all_whitespace)
  then obtain errs where e: "validate_FormData nd ev b = Inl errs"
    "(loc_name, string_too_short) \<in> set errs"
    using validate_Inl_name by blast
  from post_invalid[OF e(1), where fw=fw and st=st] e show ?thesis
    by (auto simp: respond_def split: if_splits)
qed

lemma validate_Inr_row_ok:
  assumes "validate_FormData nd ev b = Inr data"
  shows "row_ok nd (new_row data st)"
proof -
  from assms obtain n p where "1 \<le> length (strip n)" "length (strip n) \<le> 255"
    "matches_pattern nd (strip p)" "name data = strip n" "number data = strip p"
    by (auto simp: validate_Inr)
  then show ?thesis by (auto simp: row_ok_def new_row_def)
qed

subsection \<open>The example submission\<close>

lemma post_ada_empty:
  "post_submit_form fw nd at_sign_validator ada empty_state = (r, s) \<Longrightarrow>
     r = \<lparr>status_code = 201, content = submitted ''Form submitted successfully!'' (Some 1)\<rparr> \<and>
     next_id s = 2"
  using post_valid[OF validate_ada, where fw=fw and nd=nd and st=empty_state]
  by (simp add: first_fault_empty_state) (simp add: empty_state_def)

lemma serve_ada_once:
  "serve fw nd at_sign_validator [POST_submit_form ada] empty_state =
     ([\<lparr>status_code = 201, content = submitted ''Form submitted successfully!'' (Some 1)\<rparr>],
      \<lparr>grandeur = [\<lparr>g_id = Some 1, g_name = cps ''Ada Lovelace'', g_email = cps ''ada@example.com'',
                     phone_number = cps ''5551234567'', created_at = Some 0\<rparr>],
       next_id = 2, utcnow = 0, faults = [], session = [],
       calls = [SessionLocal_call, add_call, commit_call, refresh_call, commit_call, close_call],
       log = [(INFO, ''Form submitted successfully. Record ID: '', arg_id (Some 1))]\<rparr>)"
  by (simp add: validate_ada route_defs op_defs head_fault_def empty_state_def)

text \<open>\<open>GET /health\<close> is answered 200 in every state: the \<open>except\<close> branch of the handler is never taken.\<close>

lemma health_never_503:
  "status_code (fst (get_health fw st)) = 200" "fst (health_check st) = Inr (health ''healthy'')"
  using health_ok[where fw=fw and st=st]
  by (auto simp: health_check_def health_check_try_def health_check_except_def)

text \<open>
  A storage error in the handler: the handler logs it and raises its \<open>HTTPException\<close>, the
  provider rolls back, closes and swallows the exception. The detail reaches the client
  only where the framework raises the exception again.
\<close>

lemma storage_error_raised:
  assumes "validate_FormData nd ev b = Inr data"
    and "faults st = replicate k None @ Some (SQLAlchemyError m) # rest" "k < 4"
  shows "fst (post_submit_form fw nd ev b st) =
           (if reraises fw
            then \<lparr>status_code = 500, content = detail ''Database error occurred while submitting the form''\<rparr>
            else \<lparr>status_code = 500, content = plain ''Internal Server Error''\<rparr>) \<and>
         log (snd (post_submit_form fw nd ev b st)) =
           log st @ [(ERROR, ''Database error: '', arg_exn (SQLAlchemyError m))] \<and>
         (\<exists>cs. calls (snd (post_submit_form fw nd ev b st)) = cs @ [rollback_call, close_call]) \<and>
         session (snd (post_submit_form fw nd ev b st)) = []"
proof -
  from assms(2,3) have f: "first_fault 4 (faults st) = Some (SQLAlchemyError m)"
    by (simp add: first_fault_replicate)
  obtain r s where p: "post_submit_form fw nd ev b st = (r, s)"
    by (cases "post_submit_form fw nd ev b st")
  from post_valid[OF assms(1), where fw=fw and st=st] p f show ?thesis
    by (simp add: respond_def exception_response_def raised_def error_record_def)
qed

text \<open>Rows are only appended, and the rows appended are well formed.\<close>

lemma handle_rows:
  "grandeur (snd (handle fw nd ev q st)) = grandeur st \<or>
   (\<exists>b data. q = POST_submit_form b \<and> validate_FormData nd ev b = Inr data \<and>
      grandeur (snd (handle fw nd ev q st)) = grandeur st @ [new_row data st])"
  using handle_effect[where fw=fw and nd=nd and ev=ev and q=q and st=st]
  by (cases "handle fw nd ev q st") auto

lemma handle_row_ok:
  assumes "list_all (row_ok nd) (grandeur st)"
  shows "list_all (row_ok nd) (grandeur (snd (handle fw nd ev q st)))"
  using handle_rows[of fw nd ev q st] assms validate_Inr_row_ok by auto

lemma serve_Cons_snd: "snd (serve fw nd ev (q # qs) st) = snd (serve fw nd ev qs (snd (handle fw nd ev q st)))"
  by (simp split: prod.splits)

lemma serve_row_ok:
  "list_all (row_ok nd) (grandeur st) \<Longrightarrow> list_all (row_ok nd) (grandeur (snd (serve fw nd ev qs st)))"
proof (induction qs arbitrary: st)
  case Nil
  then show ?case by simp
next
  case (Cons q qs)
  from handle_row_ok[OF Cons.prems, of fw ev q]
  have "list_all (row_ok nd) (grandeur (snd (serve fw nd ev qs (snd (handle fw nd ev q st)))))"
    by (rule Cons.IH)
  then show ?case unfolding serve_Cons_snd .
qed

lemma validate_ada_kawi:
  "validate_FormData unicode_14_and_kawi at_sign_validator ada_kawi =
     Inr \<lparr>name = cps ''Ada Lovelace'', email = cps ''ada@example.com'',
          number = [73557, 73557, 73557, 73553, 73554, 73555, 73556, 73557, 73558, 73559]\<rparr>"
  by (simp add: ada_kawi_def ada_def validate_defs string_defs unicode_14_and_kawi_def)

lemma serve_ada_kawi:
  "serve fw unicode_14_and_kawi at_sign_validator [POST_submit_form ada_kawi] empty_state =
     ([\<lparr>status_code = 201, content = submitted ''Form submitted successfully!'' (Some 1)\<rparr>],
      \<lparr>grandeur = [\<lparr>g_id = Some 1, g_name = cps ''Ada Lovelace'', g_email = cps ''ada@example.com'',
                     phone_number = [73557, 73557, 73557, 73553, 73554, 73555, 73556, 73557, 73558, 73559],
                     created_at = Some 0\<rparr>],
       next_id = 2, utcnow = 0, faults = [], session = [],
       calls = [SessionLocal_call, add_call, commit_call, refresh_call, commit_call, close_call],
       log = [(INFO, ''Form submitted successfully. Record ID: '', arg_id (Some 1))]\<rparr>)"
  by (simp add: validate_ada_kawi route_defs op_defs head_fault_def empty_state_def)

section \<open>The claims\<close>

text \<open>
  Claim C1, as stated, fails: the submission of Ada Lovelace is valid in each field, and
  when the handler's commit raises a storage error the answer is 500, not 201, with the
  detail of the handler's exception where the framework raises it again and plain where
  it does not.
\<close>

theorem submit_valid_storage_failure_counterexample:
  "json_name ada = Str (cps ''Ada Lovelace'') \<and>
   1 \<le> length (strip (cps ''Ada Lovelace'')) \<and> length (strip (cps ''Ada Lovelace'')) \<le> 255 \<and>
   json_email ada = Str (cps ''ada@example.com'') \<and>
   at_sign_validator (strip (cps ''ada@example.com'')) = Some (cps ''ada@example.com'') \<and>
   json_number ada = Str (cps ''5551234567'') \<and> matches_pattern unicode_14 (cps ''5551234567'') \<and>
   fst (post_submit_form reraising unicode_14 at_sign_validator ada
          (empty_state\<lparr>faults := [None, None, Some (SQLAlchemyError ''connection refused'')]\<rparr>)) =
     \<lparr>status_code = 500, content = detail ''Database error occurred while submitting the form''\<rparr> \<and>
   fst (post_submit_form swallowing unicode_14 at_sign_validator ada
          (empty_state\<lparr>faults := [None, None, Some (SQLAlchemyError ''connection refused'')]\<rparr>)) =
     \<lparr>status_code = 500, content = plain ''Internal Server Error''\<rparr>"
proof -
  let ?st = "empty_state\<lparr>faults := [None, None, Some (SQLAlchemyError ''connection refused'')]\<rparr>"
  have f: "first_fault 4 (faults ?st) = Some (SQLAlchemyError ''connection refused'')"
    by (simp add: four)
  have "\<And>fw. fst (post_submit_form fw unicode_14 at_sign_validator ada ?st) =
      respond fw 201 (Swallowed (raised (SQLAlchemyError ''connection refused'')))"
  proof -
    fix fw
    obtain r s where p: "post_submit_form fw unicode_14 at_sign_validator ada ?st = (r, s)"
      by (cases "post_submit_form fw unicode_14 at_sign_validator ada ?st")
    from post_valid[OF validate_ada, where fw=fw and st="?st" and nd=unicode_14] p f
    show "fst (post_submit_form fw unicode_14 at_sign_validator ada ?st) =
      respond fw 201 (Swallowed (raised (SQLAlchemyError ''connection refused'')))"
      by simp
  qed
  then have a: "fst (post_submit_form reraising unicode_14 at_sign_validator ada ?st) =
       \<lparr>status_code = 500, content = detail ''Database error occurred while submitting the form''\<rparr>"
    and b: "fst (post_submit_form swallowing unicode_14 at_sign_validator ada ?st) =
       \<lparr>status_code = 500, content = plain ''Internal Server Error''\<rparr>"
    by (simp_all add: respond_def exception_response_def raised_def framework_defs)
  have c: "json_name ada = Str (cps ''Ada Lovelace'')" "json_email ada = Str (cps ''ada@example.com'')"
    "json_number ada = Str (cps ''5551234567'')"
    by (simp_all add: ada_def)
  have d: "1 \<le> length (strip (cps ''Ada Lovelace''))" "length (strip (cps ''Ada Lovelace'')) \<le> 255"
    "at_sign_validator (strip (cps ''ada@example.com'')) = Some (cps ''ada@example.com'')"
    "matches_pattern unicode_14 (cps ''5551234567'')"
    by (simp_all add: string_defs)
  show ?thesis by (intro conjI) (rule a b c d)+
qed

text \<open>
  Claim C1, amended. After any sequence of requests, started in a state whose next
  identifier is positive, a submission with a name of 1 to 255 code points once stripped,
  an email the validator accepts once stripped and a number of exactly ten digits is
  answered 201 with the message \<open>Form submitted successfully!\<close> and a \<open>record_id\<close>,
  provided none of the four storage calls of the handler (construction, add, commit,
  refresh) raises. The \<open>record_id\<close> is positive and is not among the identifiers
  returned by the earlier requests. This holds on every framework and for every table
  of digits.
\<close>

theorem submit_valid_created:
  assumes "json_name b = Str n" "1 \<le> length (strip n)" "length (strip n) \<le> 255"
    and "json_email b = Str e" "ev (strip e) = Some e'"
    and "json_number b = Str p" "matches_pattern nd p"
    and "0 < next_id st0"
    and "list_all (\<lambda>f. f = None) (take 4 (faults (snd (serve fw nd ev qs st0))))"
  shows "fst (post_submit_form fw nd ev b (snd (serve fw nd ev qs st0))) =
           \<lparr>status_code = 201,
            content = submitted ''Form submitted successfully!''
                        (Some (next_id (snd (serve fw nd ev qs st0))))\<rparr> \<and>
         0 < next_id (snd (serve fw nd ev qs st0)) \<and>
         next_id (snd (serve fw nd ev qs st0)) \<notin> set (record_ids (fst (serve fw nd ev qs st0)))"
proof -
  let ?st = "snd (serve fw nd ev qs st0)"
  from assms(7) have m: "matches_pattern nd (strip p)" by (simp add: strip_matches)
  have v: "validate_FormData nd ev b = Inr \<lparr>name = strip n, email = e', number = strip p\<rparr>"
    using assms(1-6) m by (simp add: validate_Inr)
  from assms(9) have f: "first_fault 4 (faults ?st) = None" by (simp add: first_fault_None)
  obtain r s where q: "post_submit_form fw nd ev b ?st = (r, s)"
    by (cases "post_submit_form fw nd ev b ?st")
  from post_valid[OF v, where fw=fw and st="?st"] q f
  have "r = \<lparr>status_code = 201,
              content = submitted ''Form submitted successfully!'' (Some (next_id ?st))\<rparr>"
    by simp
  moreover from serve_ids[where st=st0 and fw=fw and nd=nd and ev=ev and qs=qs] assms(8)
  have "0 < next_id ?st" "next_id ?st \<notin> set (record_ids (fst (serve fw nd ev qs st0)))" by auto
  ultimately show ?thesis using q by simp
qed

theorem submit_valid_created_witness:
  "fst (post_submit_form enclosing unicode_14 at_sign_validator ada
         (snd (serve enclosing unicode_14 at_sign_validator [POST_submit_form ada] empty_state))) =
     \<lparr>status_code = 201, content = submitted ''Form submitted successfully!'' (Some 2)\<rparr> \<and>
   record_ids (fst (serve enclosing unicode_14 at_sign_validator [POST_submit_form ada] empty_state)) = [1]"
proof -
  have a: "json_name ada = Str (cps ''Ada Lovelace'')" "json_email ada = Str (cps ''ada@example.com'')"
    "json_number ada = Str (cps ''5551234567'')"
    by (simp_all add: ada_def)
  have b: "1 \<le> length (strip (cps ''Ada Lovelace''))" "length (strip (cps ''Ada Lovelace'')) \<le> 255"
    "at_sign_validator (strip (cps ''ada@example.com'')) = Some (cps ''ada@example.com'')"
    "matches_pattern unicode_14 (cps ''5551234567'')"
    by (simp_all add: string_defs)
  have c: "0 < next_id empty_state" by (simp add: empty_state_def)
  have d: "list_all (\<lambda>f. f = None)
      (take 4 (faults (snd (serve enclosing unicode_14 at_sign_validator [POST_submit_form ada] empty_state))))"
    unfolding serve_ada_once by simp
  from submit_valid_created[OF a(1) b(1,2) a(2) b(3) a(3) b(4) c d]
  show ?thesis unfolding serve_ada_once by simp
qed

text \<open>
  Claim C2, as stated, fails. The number \<open>" 5551234567 "\<close> has a character that is not a
  digit and is twelve characters long, and the submission is answered 201 and adds a row.
  And the rejection of a number does not come before every use of the storage session:
  for the number \<open>"12345"\<close>, which is rejected, the provider has opened a session,
  committed it or rolled it back, and closed it.
\<close>

theorem number_padded_counterexample:
  "json_number ada_padded = Str (cps '' 5551234567 '') \<and>
   \<not> list_all (is_digit unicode_14) (cps '' 5551234567 '') \<and>
   length (cps '' 5551234567 '') \<noteq> 10 \<and>
   status_code (fst (post_submit_form enclosing unicode_14 at_sign_validator ada_padded empty_state)) = 201 \<and>
   length (grandeur (snd (post_submit_form enclosing unicode_14 at_sign_validator ada_padded empty_state))) =
     length (grandeur empty_state) + 1 \<and>
   \<not> matches_pattern unicode_14 (strip (cps ''12345'')) \<and>
   calls (snd (post_submit_form swallowing unicode_14 at_sign_validator
                 (ada\<lparr>json_number := Str (cps ''12345'')\<rparr>) empty_state)) =
     [SessionLocal_call, commit_call, close_call] \<and>
   calls (snd (post_submit_form enclosing unicode_14 at_sign_validator
                 (ada\<lparr>json_number := Str (cps ''12345'')\<rparr>) empty_state)) =
     [SessionLocal_call, rollback_call, close_call]"
proof -
  let ?short = "ada\<lparr>json_number := Str (cps ''12345'')\<rparr>"
  obtain r s where p: "post_submit_form enclosing unicode_14 at_sign_validator ada_padded empty_state = (r, s)"
    by (cases "post_submit_form enclosing unicode_14 at_sign_validator ada_padded empty_state")
  from post_valid[OF validate_ada_padded, where fw=enclosing and st=empty_state and nd=unicode_14] p
  have "status_code r = 201" "length (grandeur s) = length (grandeur empty_state) + 1"
    by (simp_all add: first_fault_empty_state)
  with p have a: "status_code (fst (post_submit_form enclosing unicode_14 at_sign_validator ada_padded empty_state)) = 201"
    and b: "length (grandeur (snd (post_submit_form enclosing unicode_14 at_sign_validator ada_padded empty_state))) =
      length (grandeur empty_state) + 1"
    by simp_all
  have c: "json_number ada_padded = Str (cps '' 5551234567 '')"
    by (simp add: ada_padded_def)
  have d: "\<not> list_all (is_digit unicode_14) (cps '' 5551234567 '')"
    by (simp add: cps_def is_digit_def is_whitespace_def)
  have e: "length (cps '' 5551234567 '') \<noteq> 10"
    by (simp add: cps_def)
  have f: "\<not> matches_pattern unicode_14 (strip (cps ''12345''))"
    by (simp add: matches_pattern_def strip_def cps_def is_whitespace_def)
  have g: "calls (snd (post_submit_form swallowing unicode_14 at_sign_validator ?short empty_state)) =
      [SessionLocal_call, commit_call, close_call]"
    by (simp add: post_short_number swallowing_def)
  have h: "calls (snd (post_submit_form enclosing unicode_14 at_sign_validator ?short empty_state)) =
      [SessionLocal_call, rollback_call, close_call]"
    by (simp add: post_short_number enclosing_def)
  show ?thesis by (intro conjI) (rule a b c d e f g h)+
qed

text \<open>
  Claim C2, amended. For a submission whose \<open>number\<close>, once stripped of leading and
  trailing whitespace, is not exactly ten decimal digits, the schema reports a validation
  error on \<open>number\<close>; the handler is not entered, the session sees no call but those of the
  provider (open, commit or rollback of nothing, close), the answer is not 201 and the
  table is unchanged. Where the framework answers a validation error after the provider
  has ended, the answer is 422 with the field errors.
\<close>

theorem number_rejected_after_strip:
  assumes "json_number b = Str p" "\<not> matches_pattern nd (strip p)"
  shows "(\<exists>errs. validate_FormData nd ev b = Inl errs \<and>
            (loc_number, string_pattern_mismatch) \<in> set errs \<and>
            (\<not> validates_inside fw \<longrightarrow>
               fst (post_submit_form fw nd ev b st) =
                 \<lparr>status_code = 422, content = validation_detail errs\<rparr>)) \<and>
         status_code (fst (post_submit_form fw nd ev b st)) \<noteq> 201 \<and>
         grandeur (snd (post_submit_form fw nd ev b st)) = grandeur st \<and>
         set (this_request st (snd (post_submit_form fw nd ev b st))) \<subseteq>
           {SessionLocal_call, commit_call, rollback_call, close_call}"
proof -
  from assms have "validate_number nd (json_number b) = Inl string_pattern_mismatch"
    by (simp add: validate_number_def)
  then obtain errs where e: "validate_FormData nd ev b = Inl errs"
    "(loc_number, string_pattern_mismatch) \<in> set errs"
    using validate_Inl_number by blast
  from post_invalid[OF e(1), where fw=fw and st=st] e show ?thesis
    by (auto simp: respond_not_201 split: if_splits)
qed

theorem number_rejected_after_strip_witness:
  "\<not> matches_pattern unicode_14 (strip (cps ''12345'')) \<and>
   fst (post_submit_form swallowing unicode_14 at_sign_validator
          (ada\<lparr>json_number := Str (cps ''12345'')\<rparr>) empty_state) =
     \<lparr>status_code = 422, content = validation_detail [(loc_number, string_pattern_mismatch)]\<rparr> \<and>
   grandeur (snd (post_submit_form swallowing unicode_14 at_sign_validator
          (ada\<lparr>json_number := Str (cps ''12345'')\<rparr>) empty_state)) = [] \<and>
   grandeur (snd (post_submit_form enclosing unicode_14 at_sign_validator
          (ada\<lparr>json_number := Str (cps ''12345'')\<rparr>) empty_state)) = []"
proof -
  have a: "json_number (ada\<lparr>json_number := Str (cps ''12345'')\<rparr>) = Str (cps ''12345'')" by simp
  have b: "\<not> matches_pattern unicode_14 (strip (cps ''12345''))"
    by (simp add: matches_pattern_def strip_def cps_def is_whitespace_def)
  have v: "validate_FormData unicode_14 at_sign_validator (ada\<lparr>json_number := Str (cps ''12345'')\<rparr>) =
      Inl [(loc_number, string_pattern_mismatch)]"
    by (simp add: ada_def validate_defs string_defs)
  from number_rejected_after_strip[OF a b, of at_sign_validator swallowing empty_state]
    number_rejected_after_strip[OF a b, of at_sign_validator enclosing empty_state] b v
  show ?thesis by (simp add: empty_state_def framework_defs)
qed

text \<open>
  Claim C3 asks that a submission whose name is empty or all whitespace be rejected with a
  validation error. Where the framework raises the validation error while the provider is
  suspended, \<open>get_db\<close> swallows it: the submission with a name of three spaces is answered
  with the plain 500 of the server, not with a validation error. No row is inserted.
\<close>

theorem whitespace_name_answered_500:
  "post_submit_form enclosing unicode_14 at_sign_validator (ada\<lparr>json_name := Str (cps ''   '')\<rparr>)
     empty_state =
     (\<lparr>status_code = 500, content = plain ''Internal Server Error''\<rparr>,
      \<lparr>grandeur = [], next_id = 1, utcnow = 0, faults = [], session = [],
       calls = [SessionLocal_call, rollback_call, close_call], log = []\<rparr>)"
  by (simp add: ada_def validate_defs string_defs route_defs op_defs head_fault_def empty_state_def
      framework_defs)

text \<open>
  Claim C4 asks that no error be swallowed silently. The provider's own commit can
  raise after the handler has returned: here the four calls of the handler succeed and
  the commit of \<open>get_db\<close> raises. The session is rolled back and closed, the answer is
  201, and the log holds the INFO record of the handler and no record of the failure.
\<close>

theorem provider_commit_failure_silent:
  "post_submit_form fw nd at_sign_validator ada
     (empty_state\<lparr>faults := [None, None, None, None, Some (SQLAlchemyError ''server closed the connection'')]\<rparr>) =
     (\<lparr>status_code = 201, content = submitted ''Form submitted successfully!'' (Some 1)\<rparr>,
      \<lparr>grandeur = [\<lparr>g_id = Some 1, g_name = cps ''Ada Lovelace'', g_email = cps ''ada@example.com'',
                     phone_number = cps ''5551234567'', created_at = Some 0\<rparr>],
       next_id = 2, utcnow = 0, faults = [], session = [],
       calls = [SessionLocal_call, add_call, commit_call, refresh_call, commit_call, rollback_call,
                close_call],
       log = [(INFO, ''Form submitted successfully. Record ID: '', arg_id (Some 1))]\<rparr>)"
  by (simp add: validate_ada route_defs op_defs head_fault_def empty_state_def)


text \<open>
  Claim C6, as stated, fails in its second half: with \<open>DATABASE_URL\<close> present in the
  environment and empty, the import raises the \<open>ValueError\<close> of the check.
\<close>

theorem empty_url_counterexample:
  "environ \<lparr>environ = [''DATABASE_URL'' \<mapsto> ''''], dotenv = Map.empty,
            create_engine_raises = None, create_all_raises = None\<rparr> ''DATABASE_URL'' = Some '''' \<and>
   fst (module_init \<lparr>environ = [''DATABASE_URL'' \<mapsto> ''''], dotenv = Map.empty,
            create_engine_raises = None, create_all_raises = None\<rparr>) =
     Inl (ValueError ''DATABASE_URL environment variable is missing'')"
  by (simp add: module_init_def getenv_def load_dotenv_def py_not_def)

text \<open>
  Claim C6, amended. If \<open>DATABASE_URL\<close> is set neither in the process environment nor
  in the \<open>.env\<close> file, or is the empty string, the import raises \<open>ValueError\<close> before
  the application is constructed, so that no port is bound; if it is present and not
  empty, the check passes and the import goes on to create the engine.
\<close>

theorem database_url_required:
  "((environ p ''DATABASE_URL'' = None \<and> dotenv p ''DATABASE_URL'' = None \<or>
     getenv (load_dotenv p) ''DATABASE_URL'' = Some '''') \<longrightarrow>
      fst (module_init p) = Inl (ValueError ''DATABASE_URL environment variable is missing'') \<and>
      FastAPI_step \<notin> set (fst (snd (module_init p))) \<and>
      \<not> binds_port (module_init p)) \<and>
   (getenv (load_dotenv p) ''DATABASE_URL'' = Some u \<and> u \<noteq> '''' \<longrightarrow>
      fst (module_init p) \<noteq> Inl (ValueError ''DATABASE_URL environment variable is missing'') \<and>
      create_engine_step \<in> set (fst (snd (module_init p))))"
  by (auto simp: module_init_def getenv_def load_dotenv_def py_not_def binds_port_def map_add_def
      split: option.splits)

theorem database_url_required_witness:
  "fst (module_init \<lparr>environ = Map.empty, dotenv = Map.empty,
          create_engine_raises = None, create_all_raises = None\<rparr>) =
     Inl (ValueError ''DATABASE_URL environment variable is missing'') \<and>
   \<not> binds_port (module_init \<lparr>environ = Map.empty, dotenv = Map.empty,
          create_engine_raises = None, create_all_raises = None\<rparr>) \<and>
   fst (module_init \<lparr>environ = Map.empty, dotenv = [''DATABASE_URL'' \<mapsto> ''sqlite:///forms.db''],
          create_engine_raises = None, create_all_raises = None\<rparr>) \<noteq>
     Inl (ValueError ''DATABASE_URL environment variable is missing'')"
  using database_url_required[of "\<lparr>environ = Map.empty, dotenv = Map.empty,
          create_engine_raises = None, create_all_raises = None\<rparr>" u]
    database_url_required[of "\<lparr>environ = Map.empty, dotenv = [''DATABASE_URL'' \<mapsto> ''sqlite:///forms.db''],
          create_engine_raises = None, create_all_raises = None\<rparr>" "''sqlite:///forms.db''"]
  by (simp add: getenv_def load_dotenv_def)

text \<open>
  Claim C7 asks that a storage error in the handler be answered 500 with the detail
  \<open>Database error occurred while submitting the form\<close>. The handler logs the error and
  raises the exception with that detail, and \<open>get_db\<close> rolls back, closes and swallows
  it: where the framework does not raise it again, the answer is the plain 500 of the
  server. Here the commit of the handler raises.
\<close>

theorem storage_error_detail_swallowed:
  "post_submit_form swallowing unicode_14 at_sign_validator ada
     (empty_state\<lparr>faults := [None, None, Some (SQLAlchemyError ''disk full'')]\<rparr>) =
     (\<lparr>status_code = 500, content = plain ''Internal Server Error''\<rparr>,
      \<lparr>grandeur = [], next_id = 1, utcnow = 0, faults = [], session = [],
       calls = [SessionLocal_call, add_call, commit_call, rollback_call, close_call],
       log = [(ERROR, ''Database error: '', arg_exn (SQLAlchemyError ''disk full''))]\<rparr>)"
  by (simp add: validate_ada route_defs op_defs head_fault_def empty_state_def framework_defs)

text \<open>
  Claim C8. Whatever the request, the rows of the table before it are the first rows of
  the table after it, unchanged and in place; and a submission answered 201 adds exactly
  one row.
\<close>

theorem rows_never_changed:
  "(\<exists>rows. grandeur (snd (handle fw nd ev q st)) = grandeur st @ rows) \<and>
   (status_code (fst (handle fw nd ev (POST_submit_form b) st)) = 201 \<longrightarrow>
      (\<exists>row. grandeur (snd (handle fw nd ev (POST_submit_form b) st)) = grandeur st @ [row]))"
proof -
  have a: "\<exists>rows. grandeur (snd (handle fw nd ev q st)) = grandeur st @ rows"
    using handle_effect[where fw=fw and nd=nd and ev=ev and q=q and st=st]
    by (cases "handle fw nd ev q st") auto
  have b: "status_code (fst (handle fw nd ev (POST_submit_form b) st)) = 201 \<longrightarrow>
      (\<exists>row. grandeur (snd (handle fw nd ev (POST_submit_form b) st)) = grandeur st @ [row])"
    using handle_effect[where fw=fw and nd=nd and ev=ev and q="POST_submit_form b" and st=st]
    by (cases "handle fw nd ev (POST_submit_form b) st") auto
  from a b show ?thesis by simp
qed

theorem rows_never_changed_witness:
  "status_code (fst (handle enclosing unicode_14 at_sign_validator (POST_submit_form ada) empty_state)) = 201 \<and>
   (\<exists>row. grandeur (snd (handle enclosing unicode_14 at_sign_validator (POST_submit_form ada) empty_state)) = [row])"
proof -
  have "status_code (fst (handle enclosing unicode_14 at_sign_validator (POST_submit_form ada) empty_state)) = 201"
    using post_ada_empty[of enclosing unicode_14 "fst (post_submit_form enclosing unicode_14 at_sign_validator ada empty_state)"
        "snd (post_submit_form enclosing unicode_14 at_sign_validator ada empty_state)"]
    by simp
  with rows_never_changed[of enclosing unicode_14 at_sign_validator "POST_submit_form ada" empty_state ada]
  show ?thesis by (simp add: empty_state_def)
qed

text \<open>
  Claim C9. If every row of the table is well formed, so is every row after any sequence
  of requests, the digits of \<open>phone_number\<close> being those of the table the pattern is
  matched with; and a request either leaves the table as it is or appends one row whose
  \<open>g_name\<close>, \<open>g_email\<close> and \<open>phone_number\<close> are the fields of the value the schema
  returned for the body.
\<close>

theorem rows_valid:
  "(list_all (row_ok nd) (grandeur st) \<longrightarrow> list_all (row_ok nd) (grandeur (snd (serve fw nd ev qs st)))) \<and>
   (grandeur (snd (handle fw nd ev q st)) = grandeur st \<or>
    (\<exists>b data. q = POST_submit_form b \<and> validate_FormData nd ev b = Inr data \<and>
       grandeur (snd (handle fw nd ev q st)) =
         grandeur st @ [\<lparr>g_id = Some (next_id st), g_name = name data, g_email = email data,
                         phone_number = number data, created_at = Some (utcnow st)\<rparr>]))"
  using serve_row_ok[of nd st fw ev qs] handle_rows[of fw nd ev q st] by (simp add: new_row_def)

theorem rows_valid_witness:
  "list_all (row_ok unicode_14) (grandeur empty_state) \<and>
   list_all (row_ok unicode_14)
     (grandeur (snd (serve enclosing unicode_14 at_sign_validator [POST_submit_form ada] empty_state))) \<and>
   length (grandeur (snd (serve enclosing unicode_14 at_sign_validator [POST_submit_form ada] empty_state))) = 1 \<and>
   list_all (row_ok unicode_14_and_kawi)
     (grandeur (snd (serve enclosing unicode_14_and_kawi at_sign_validator [POST_submit_form ada_kawi]
                       empty_state))) \<and>
   map phone_number
     (grandeur (snd (serve enclosing unicode_14_and_kawi at_sign_validator [POST_submit_form ada_kawi]
                       empty_state))) =
     [[73557, 73557, 73557, 73553, 73554, 73555, 73556, 73557, 73558, 73559]]"
proof -
  have e: "list_all (row_ok unicode_14) (grandeur empty_state)"
    "list_all (row_ok unicode_14_and_kawi) (grandeur empty_state)"
    by (simp_all add: empty_state_def)
  from rows_valid[of unicode_14 empty_state enclosing at_sign_validator "[POST_submit_form ada]" GET_root] e
  have a: "list_all (row_ok unicode_14)
      (grandeur (snd (serve enclosing unicode_14 at_sign_validator [POST_submit_form ada] empty_state)))"
    by blast
  from rows_valid[of unicode_14_and_kawi empty_state enclosing at_sign_validator
      "[POST_submit_form ada_kawi]" GET_root] e
  have b: "list_all (row_ok unicode_14_and_kawi)
      (grandeur (snd (serve enclosing unicode_14_and_kawi at_sign_validator [POST_submit_form ada_kawi]
                        empty_state)))"
    by blast
  have c: "length (grandeur (snd (serve enclosing unicode_14 at_sign_validator [POST_submit_form ada] empty_state))) = 1"
    unfolding serve_ada_once by simp
  have d: "map phone_number
     (grandeur (snd (serve enclosing unicode_14_and_kawi at_sign_validator [POST_submit_form ada_kawi]
                       empty_state))) =
     [[73557, 73557, 73557, 73553, 73554, 73555, 73556, 73557, 73558, 73559]]"
    unfolding serve_ada_kawi by simp
  show ?thesis by (intro conjI) (rule e a b c d)+
qed



end
